theory Spec2Isabelle
  imports Complex_Main
begin

section \<open>Shared types (types.ts)\<close>

text \<open>
  A JavaScript \<open>number\<close> is a finite value, \<open>-Infinity\<close>, \<open>+Infinity\<close> or \<open>NaN\<close>.
  Finite values are modelled as real numbers and the arithmetic on them is exact:
  rounding, overflow and underflow of finite results are not modelled, and the two zeros
  are one.  On the special values the operators follow the language: \<open>Infinity -
  Infinity\<close>, \<open>0 * Infinity\<close>, \<open>Infinity / Infinity\<close> and \<open>0 / 0\<close> are \<open>NaN\<close>,
  every operation on \<open>NaN\<close> is \<open>NaN\<close>, and every comparison with \<open>NaN\<close> is false.
  An \<open>Embedding\<close> is a \<open>number[]\<close>, so its components may be special values.
\<close>

datatype number = NegInf | Fin real | PosInf | NaN

type_synonym Embedding = "number list"

fun js_add :: "number \<Rightarrow> number \<Rightarrow> number" where
  "js_add NaN y = NaN"
| "js_add x NaN = NaN"
| "js_add (Fin x) (Fin y) = Fin (x + y)"
| "js_add PosInf NegInf = NaN"
| "js_add NegInf PosInf = NaN"
| "js_add PosInf y = PosInf"
| "js_add NegInf y = NegInf"
| "js_add (Fin x) y = y"

fun js_sub :: "number \<Rightarrow> number \<Rightarrow> number" where
  "js_sub NaN y = NaN"
| "js_sub x NaN = NaN"
| "js_sub (Fin x) (Fin y) = Fin (x - y)"
| "js_sub (Fin x) NegInf = PosInf"
| "js_sub (Fin x) PosInf = NegInf"
| "js_sub NegInf NegInf = NaN"
| "js_sub NegInf y = NegInf"
| "js_sub PosInf PosInf = NaN"
| "js_sub PosInf y = PosInf"

text \<open>The sign of an infinite product or quotient, from the sign of the finite operand.\<close>

fun signed_inf :: "bool \<Rightarrow> number" where
  "signed_inf positive = (if positive then PosInf else NegInf)"

fun js_mul :: "number \<Rightarrow> number \<Rightarrow> number" where
  "js_mul NaN y = NaN"
| "js_mul x NaN = NaN"
| "js_mul (Fin x) (Fin y) = Fin (x * y)"
| "js_mul (Fin x) PosInf = (if x = 0 then NaN else signed_inf (0 < x))"
| "js_mul (Fin x) NegInf = (if x = 0 then NaN else signed_inf (x < 0))"
| "js_mul PosInf (Fin y) = (if y = 0 then NaN else signed_inf (0 < y))"
| "js_mul NegInf (Fin y) = (if y = 0 then NaN else signed_inf (y < 0))"
| "js_mul PosInf PosInf = PosInf"
| "js_mul NegInf NegInf = PosInf"
| "js_mul PosInf NegInf = NegInf"
| "js_mul NegInf PosInf = NegInf"

fun js_div :: "number \<Rightarrow> number \<Rightarrow> number" where
  "js_div NaN y = NaN"
| "js_div x NaN = NaN"
| "js_div (Fin x) (Fin y) =
     (if y = 0 then (if x = 0 then NaN else signed_inf (0 < x)) else Fin (x / y))"
| "js_div (Fin x) y = Fin 0"
| "js_div PosInf (Fin y) = signed_inf (0 \<le> y)"
| "js_div NegInf (Fin y) = signed_inf (y < 0)"
| "js_div x y = NaN"

fun js_sqrt :: "number \<Rightarrow> number" where
  "js_sqrt (Fin x) = (if x < 0 then NaN else Fin (sqrt x))"
| "js_sqrt PosInf = PosInf"
| "js_sqrt x = NaN"

text \<open>The operators \<open><\<close>, \<open>>=\<close> and \<open>===\<close> on numbers.\<close>

fun js_lt :: "number \<Rightarrow> number \<Rightarrow> bool" where
  "js_lt NaN y = False"
| "js_lt x NaN = False"
| "js_lt (Fin x) (Fin y) = (x < y)"
| "js_lt x NegInf = False"
| "js_lt NegInf y = True"
| "js_lt PosInf y = False"
| "js_lt (Fin x) PosInf = True"

fun js_ge :: "number \<Rightarrow> number \<Rightarrow> bool" where
  "js_ge NaN y = False"
| "js_ge x NaN = False"
| "js_ge x y = (\<not> js_lt x y)"

fun js_eq :: "number \<Rightarrow> number \<Rightarrow> bool" where
  "js_eq NaN y = False"
| "js_eq x NaN = False"
| "js_eq x y = (x = y)"

datatype SemanticErrorCode =
    MODEL_NOT_LOADED
  | INVALID_INPUT
  | EMBEDDING_FAILED
  | COMPUTATION_FAILED
  | DIMENSION_MISMATCH

text \<open>
  The \<open>details\<close> payload of a \<open>SemanticError\<close> is an optional object.  Each shape that
  the modelled code builds is a constructor; \<open>OtherDetails\<close> stands for payloads built
  by the embedding engine.
\<close>

datatype details =
    Dimensions nat nat
  | Length nat
  | Magnitudes number number
  | K int
  | OtherDetails string

text \<open>
  What a call can throw: a \<open>SemanticError\<close> (code, message, optional details), or the
  runtime's own \<open>TypeError\<close> on reading a property of \<open>undefined\<close>.
\<close>

datatype error =
    SemanticError SemanticErrorCode string "details option"
  | TypeError

fun error_code :: "error \<Rightarrow> SemanticErrorCode option" where
  "error_code (SemanticError c m d) = Some c"
| "error_code TypeError = None"

fun error_details :: "error \<Rightarrow> details option" where
  "error_details (SemanticError c m d) = d"
| "error_details TypeError = None"

section \<open>Vector mathematics (utils/vector.ts)\<close>

text \<open>Decimal printing of an array length, as a template literal does.\<close>

fun show_nat :: "nat \<Rightarrow> string" where
  "show_nat n =
     (if n < 10 then [''0123456789'' ! n]
      else show_nat (n div 10) @ [''0123456789'' ! (n mod 10)])"

definition validateDimensions :: "Embedding \<Rightarrow> Embedding \<Rightarrow> error + unit" where
  "validateDimensions a b =
     (if length a \<noteq> length b then
        Inl (SemanticError DIMENSION_MISMATCH
               (''Embedding dimensions must match. Got '' @ show_nat (length a)
                  @ '' and '' @ show_nat (length b))
               (Some (Dimensions (length a) (length b))))
      else Inr ())"

definition validateEmbedding :: "Embedding \<Rightarrow> string \<Rightarrow> error + unit" where
  "validateEmbedding embedding name =
     (if length embedding = 0 then
        Inl (SemanticError INVALID_INPUT (name @ '' must be a non-empty array'')
               (Some (Length (length embedding))))
      else Inr ())"

text \<open>
  The three validation calls that open \<open>dotProduct\<close>, \<open>cosineSimilarity\<close> and
  \<open>euclideanDistance\<close>, in the order of the source.
\<close>

definition validatePair :: "Embedding \<Rightarrow> Embedding \<Rightarrow> error + unit" where
  "validatePair a b =
     (case validateEmbedding a ''first embedding'' of
        Inl e \<Rightarrow> Inl e
      | Inr u \<Rightarrow>
          (case validateEmbedding b ''second embedding'' of
             Inl e \<Rightarrow> Inl e
           | Inr u \<Rightarrow> validateDimensions a b))"

definition dotProduct :: "Embedding \<Rightarrow> Embedding \<Rightarrow> error + number" where
  "dotProduct a b =
     (case validatePair a b of
        Inl e \<Rightarrow> Inl e
      | Inr u \<Rightarrow>
          Inr (fold (\<lambda>i sum. js_add sum (js_mul (a ! i) (b ! i))) [0..<length a] (Fin 0)))"

definition magnitude :: "Embedding \<Rightarrow> error + number" where
  "magnitude vector =
     (case validateEmbedding vector ''embedding'' of
        Inl e \<Rightarrow> Inl e
      | Inr u \<Rightarrow>
          Inr (js_sqrt (fold (\<lambda>i sum. js_add sum (js_mul (vector ! i) (vector ! i)))
                          [0..<length vector] (Fin 0))))"

definition cosineSimilarity :: "Embedding \<Rightarrow> Embedding \<Rightarrow> error + number" where
  "cosineSimilarity a b =
     (case validatePair a b of
        Inl e \<Rightarrow> Inl e
      | Inr u \<Rightarrow>
          (case dotProduct a b of
             Inl e \<Rightarrow> Inl e
           | Inr dot \<Rightarrow>
               (case magnitude a of
                  Inl e \<Rightarrow> Inl e
                | Inr magA \<Rightarrow>
                    (case magnitude b of
                       Inl e \<Rightarrow> Inl e
                     | Inr magB \<Rightarrow>
                         (if js_eq magA (Fin 0) \<or> js_eq magB (Fin 0) then
                            Inl (SemanticError COMPUTATION_FAILED
                                   ''Cannot compute cosine similarity with zero-magnitude vector''
                                   (Some (Magnitudes magA magB)))
                          else Inr (js_div dot (js_mul magA magB)))))))"

definition euclideanDistance :: "Embedding \<Rightarrow> Embedding \<Rightarrow> error + number" where
  "euclideanDistance a b =
     (case validatePair a b of
        Inl e \<Rightarrow> Inl e
      | Inr u \<Rightarrow>
          Inr (js_sqrt
                 (fold (\<lambda>i sum. js_add sum
                                   (js_mul (js_sub (a ! i) (b ! i)) (js_sub (a ! i) (b ! i))))
                    [0..<length a] (Fin 0))))"

text \<open>
  \<open>centroid\<close>: \<open>result\<close> starts as \<open>dimn\<close> zeros (\<open>dimn\<close> is the source's
  \<open>dim\<close>); the outer loop visits the embeddings in order, throws at the first one whose
  length differs from it, and otherwise adds it component by component.  The error it
  builds has no details argument.
\<close>

fun centroid_loop :: "nat \<Rightarrow> number list \<Rightarrow> Embedding list \<Rightarrow> error + number list" where
  "centroid_loop dimn result [] = Inr result"
| "centroid_loop dimn result (embedding # rest) =
     (if length embedding \<noteq> dimn then
        Inl (SemanticError DIMENSION_MISMATCH
               ''All embeddings must have same dimensions'' None)
      else centroid_loop dimn
             (map (\<lambda>i. js_add (result ! i) (embedding ! i)) [0..<dimn]) rest)"

definition centroid :: "Embedding list \<Rightarrow> error + Embedding" where
  "centroid embeddings =
     (case embeddings of
        [] \<Rightarrow>
          Inl (SemanticError INVALID_INPUT ''Cannot compute centroid of empty array'' None)
      | first # others \<Rightarrow>
          (let dimn = length first in
           case centroid_loop dimn (replicate dimn (Fin 0)) embeddings of
             Inl e \<Rightarrow> Inl e
           | Inr result \<Rightarrow>
               Inr (map (\<lambda>v. js_div v (Fin (real (length embeddings)))) result)))"

subsection \<open>\<open>Array.prototype.sort\<close>\<close>

text \<open>
  \<open>sort(comparefn)\<close> is stable, and the language's \<open>SortCompare\<close> reads a \<open>NaN\<close>
  returned by the comparator as \<open>+0\<close>.  The model is the stable insertion sort: going
  from the last element to the first, each element is put in front of the already sorted
  rest and moves right only past elements that the comparator puts strictly before it
  (\<open>comparefn(x, y) > 0\<close>).
\<close>

fun SortCompare :: "('a \<Rightarrow> 'a \<Rightarrow> number) \<Rightarrow> 'a \<Rightarrow> 'a \<Rightarrow> number" where
  "SortCompare comparefn x y = (case comparefn x y of NaN \<Rightarrow> Fin 0 | v \<Rightarrow> v)"

fun sort_insert :: "('a \<Rightarrow> 'a \<Rightarrow> number) \<Rightarrow> 'a \<Rightarrow> 'a list \<Rightarrow> 'a list" where
  "sort_insert comparefn x [] = [x]"
| "sort_insert comparefn x (y # ys) =
     (if js_lt (Fin 0) (SortCompare comparefn x y) then y # sort_insert comparefn x ys
      else x # y # ys)"

definition array_sort :: "('a \<Rightarrow> 'a \<Rightarrow> number) \<Rightarrow> 'a list \<Rightarrow> 'a list" where
  "array_sort comparefn xs = foldr (sort_insert comparefn) xs []"

subsection \<open>\<open>topKSimilar\<close>\<close>

text \<open>
  The score of one candidate: its cosine similarity to the query, or \<open>-Infinity\<close> when
  \<open>cosineSimilarity\<close> throws (the \<open>catch\<close> swallows every error).  The similarity
  itself can be \<open>NaN\<close>: for the query \<open>[1, 0]\<close> and the candidate \<open>[Infinity, 0]\<close> the
  dot product and one magnitude are infinite and their quotient is \<open>NaN\<close>.  (In the
  code the same happens when a product of large finite components overflows.)
\<close>

definition candidate_score :: "Embedding \<Rightarrow> Embedding \<Rightarrow> number" where
  "candidate_score query candidate =
     (case cosineSimilarity query candidate of Inl e \<Rightarrow> NegInf | Inr s \<Rightarrow> s)"

text \<open>
  \<open>candidates.map((candidate, idx) => [idx, score])\<close>, and \<open>topKSimilar\<close> itself.
  \<open>k\<close> is an integer (the configuration's \<open>topK\<close>); \<open>slice(0, n)\<close> keeps the first
  \<open>n\<close> elements.
\<close>

definition similarities :: "Embedding \<Rightarrow> Embedding list \<Rightarrow> (nat \<times> number) list" where
  "similarities query candidates =
     map (\<lambda>(idx, candidate). (idx, candidate_score query candidate)) (enumerate 0 candidates)"

definition topKSimilar ::
  "Embedding \<Rightarrow> Embedding list \<Rightarrow> int \<Rightarrow> error + (nat \<times> number) list" where
  "topKSimilar query candidates k =
     (case validateEmbedding query ''query'' of
        Inl e \<Rightarrow> Inl e
      | Inr u \<Rightarrow>
          if length candidates = 0 then Inr []
          else if k \<le> 0 then
            Inl (SemanticError INVALID_INPUT ''k must be positive'' (Some (K k)))
          else
            (let sorted = array_sort (\<lambda>a b. js_sub (snd b) (snd a))
                            (similarities query candidates)
             in Inr (take (nat (min k (int (length sorted)))) sorted)))"

section \<open>The search index (search/SemanticSearch.ts)\<close>

text \<open>
  The embedding engine is an external collaborator: a call returns its result or throws.
  It is a parameter of every operation that uses it.  The field \<open>text\<close> of an
  \<open>EmbeddingResult\<close> is called \<open>source_text\<close> here.
\<close>

record EmbeddingMetadata =
  dimensions :: nat
  modelName :: string
  processingTime :: number

record EmbeddingResult =
  embedding :: Embedding
  source_text :: string
  metadata :: EmbeddingMetadata

record SemanticEngine =
  embed :: "string \<Rightarrow> error + EmbeddingResult"
  embedBatch :: "string list \<Rightarrow> nat \<Rightarrow> error + EmbeddingResult list"

text \<open>Metadata is a \<open>Record<string, unknown>\<close>: keys with scalar values.\<close>

datatype scalar = SNull | SBool bool | SNum number | SStr string

type_synonym Metadata = "(string \<times> scalar) list"

record 'a SearchResult =
  item :: 'a
  score :: number
  rank :: nat

record 'a IndexedItem =
  item :: 'a
  embedding :: Embedding
  metadata :: "Metadata option"

text \<open>
  \<open>SearchConfig\<close> is the stored, fully populated configuration; in an override every
  field may be absent (\<open>None\<close>), and an absent override object is the override with no
  field.
\<close>

record 'a SearchConfig =
  topK :: int
  threshold :: number
  textExtractor :: "'a \<Rightarrow> string"
  metadataExtractor :: "'a \<Rightarrow> Metadata"

record 'a PartialSearchConfig =
  topK_opt :: "int option"
  threshold_opt :: "number option"
  textExtractor_opt :: "('a \<Rightarrow> string) option"
  metadataExtractor_opt :: "('a \<Rightarrow> Metadata) option"

text \<open>The object spread \<open>{ ...this.config, ...overrideConfig }\<close>.\<close>

definition merge_config :: "'a SearchConfig \<Rightarrow> 'a PartialSearchConfig \<Rightarrow> 'a SearchConfig" where
  "merge_config c ov =
     \<lparr> topK = (case topK_opt ov of None \<Rightarrow> topK c | Some v \<Rightarrow> v),
       threshold = (case threshold_opt ov of None \<Rightarrow> threshold c | Some v \<Rightarrow> v),
       textExtractor = (case textExtractor_opt ov of None \<Rightarrow> textExtractor c | Some v \<Rightarrow> v),
       metadataExtractor =
         (case metadataExtractor_opt ov of None \<Rightarrow> metadataExtractor c | Some v \<Rightarrow> v) \<rparr>"

record 'a SemanticSearch =
  indexedItems :: "'a IndexedItem list"
  config :: "'a SearchConfig"

text \<open>
  \<open>items.map((item, idx) => ({ item, embedding: results[idx].embedding, metadata }))\<close>:
  reading \<open>.embedding\<close> of a missing result is a \<open>TypeError\<close>.
\<close>

fun newIndexItems ::
  "'a SearchConfig \<Rightarrow> EmbeddingResult list \<Rightarrow> nat \<Rightarrow> 'a list \<Rightarrow> error + 'a IndexedItem list" where
  "newIndexItems c results idx [] = Inr []"
| "newIndexItems c results idx (it # rest) =
     (if idx < length results then
        (case newIndexItems c results (Suc idx) rest of
           Inl e \<Rightarrow> Inl e
         | Inr others \<Rightarrow>
             Inr (\<lparr> IndexedItem.item = it,
                    IndexedItem.embedding = EmbeddingResult.embedding (results ! idx),
                    IndexedItem.metadata = Some (metadataExtractor c it) \<rparr> # others))
      else Inl TypeError)"

text \<open>
  \<open>index\<close> returns what the call throws or \<open>()\<close>, together with the state it leaves.
  The assignment \<open>this.indexedItems = []\<close> of a replacing call comes before the
  engine is asked for the embeddings.
\<close>

definition index ::
  "SemanticEngine \<Rightarrow> 'a SemanticSearch \<Rightarrow> 'a list \<Rightarrow> bool \<Rightarrow> (error + unit) \<times> 'a SemanticSearch" where
  "index engine this items replace =
     (if length items = 0 then
        (Inl (SemanticError INVALID_INPUT ''Items must be a non-empty array'' None), this)
      else
        (let this1 = (if replace then this\<lparr>indexedItems := []\<rparr> else this);
             texts = map (textExtractor (config this1)) items
         in case embedBatch engine texts 32 of
              Inl e \<Rightarrow> (Inl e, this1)
            | Inr results \<Rightarrow>
                (case newIndexItems (config this1) results 0 items of
                   Inl e \<Rightarrow> (Inl e, this1)
                 | Inr new \<Rightarrow>
                     (Inr (), this1\<lparr>indexedItems := indexedItems this1 @ new\<rparr>))))"

text \<open>
  The loop of \<open>search\<close> over the pairs of \<open>topKSimilar\<close>: a pair whose score is below
  the threshold is skipped (\<open>continue\<close>); any other is pushed with the current rank,
  which is then incremented.
\<close>

fun rank_loop ::
  "'a IndexedItem list \<Rightarrow> number \<Rightarrow> (nat \<times> number) list \<Rightarrow> nat \<Rightarrow> 'a SearchResult list
     \<Rightarrow> error + 'a SearchResult list" where
  "rank_loop stored thr [] rnk results = Inr results"
| "rank_loop stored thr ((idx, sc) # rest) rnk results =
     (if js_lt sc thr then rank_loop stored thr rest rnk results
      else if idx < length stored then
        rank_loop stored thr rest (rnk + 1)
          (results @ [\<lparr> SearchResult.item = IndexedItem.item (stored ! idx),
                        score = sc, rank = rnk \<rparr>])
      else Inl TypeError)"

definition search ::
  "SemanticEngine \<Rightarrow> 'a SemanticSearch \<Rightarrow> string \<Rightarrow> 'a PartialSearchConfig
     \<Rightarrow> (error + 'a SearchResult list) \<times> 'a SemanticSearch" where
  "search engine this query overrideConfig =
     (if length (indexedItems this) = 0 then
        (Inl (SemanticError INVALID_INPUT
                ''Index is empty. Call index() before searching.'' None), this)
      else
        (let c = merge_config (config this) overrideConfig in
         case embed engine query of
           Inl e \<Rightarrow> (Inl e, this)
         | Inr queryResult \<Rightarrow>
             (let candidateEmbeddings = map IndexedItem.embedding (indexedItems this) in
              case topKSimilar (EmbeddingResult.embedding queryResult)
                     candidateEmbeddings (topK c) of
                Inl e \<Rightarrow> (Inl e, this)
              | Inr topk \<Rightarrow> (rank_loop (indexedItems this) (threshold c) topk 1 [], this))))"

text \<open>
  \<open>searchWithFilter\<close>: the field is set to the filtered array, \<open>search\<close> runs inside
  \<open>try\<close>, and the \<open>finally\<close> block assigns the saved array back on both exits.
\<close>

definition searchWithFilter ::
  "SemanticEngine \<Rightarrow> 'a SemanticSearch \<Rightarrow> string \<Rightarrow> (Metadata \<Rightarrow> bool)
     \<Rightarrow> 'a PartialSearchConfig \<Rightarrow> (error + 'a SearchResult list) \<times> 'a SemanticSearch" where
  "searchWithFilter engine this query flt cfg =
     (let originalIndex = indexedItems this;
          this1 = this\<lparr>indexedItems :=
                    filter (\<lambda>it. flt (case IndexedItem.metadata it of None \<Rightarrow> [] | Some m \<Rightarrow> m))
                      originalIndex\<rparr>
      in case search engine this1 query cfg of
           (outcome, this2) \<Rightarrow> (outcome, this2\<lparr>indexedItems := originalIndex\<rparr>))"

definition clear :: "'a SemanticSearch \<Rightarrow> 'a SemanticSearch" where
  "clear this = this\<lparr>indexedItems := []\<rparr>"

subsection \<open>Export and import, with arrays and records as objects\<close>

text \<open>
  \<open>exportIndex\<close> and \<open>importIndex\<close> are about sharing, so here arrays and item
  records are objects in a store and are named by references.  \<open>records\<close> holds the
  \<open>IndexedItem\<close> objects and \<open>arrays\<close> the array objects (each a sequence of record
  references); a reference is a position in the respective list, and allocation appends.
  \<open>this_indexedItems\<close> is the reference held in the field \<open>this.indexedItems\<close>.
  A running program only holds references to objects that exist; the statements about
  the store assume so for the arrays they read.
\<close>

record 'a store =
  records :: "'a IndexedItem list"
  arrays :: "nat list list"
  this_indexedItems :: nat

text \<open>The array literal \<open>[...arr]\<close>: a new array with the elements (references) of \<open>arr\<close>.\<close>

definition spread :: "'a store \<Rightarrow> nat \<Rightarrow> nat \<times> 'a store" where
  "spread s arr = (length (arrays s), s\<lparr>arrays := arrays s @ [arrays s ! arr]\<rparr>)"

definition exportIndex :: "'a store \<Rightarrow> nat \<times> 'a store" where
  "exportIndex s = spread s (this_indexedItems s)"

definition importIndex :: "'a store \<Rightarrow> nat \<Rightarrow> 'a store" where
  "importIndex s idx =
     (case spread s idx of (copy, s') \<Rightarrow> s'\<lparr>this_indexedItems := copy\<rparr>)"

text \<open>The items the index holds: the records its array refers to, in order.\<close>

definition stored_items :: "'a store \<Rightarrow> 'a IndexedItem list" where
  "stored_items s = map (\<lambda>r. records s ! r) (arrays s ! this_indexedItems s)"

text \<open>
  What a caller can do to an object it holds a reference to: give an array any new
  contents (\<open>push\<close>, \<open>pop\<close>, \<open>splice\<close>, an indexed assignment), or give the fields of
  a record new values.
\<close>

definition array_assign :: "'a store \<Rightarrow> nat \<Rightarrow> nat list \<Rightarrow> 'a store" where
  "array_assign s arr contents = s\<lparr>arrays := (arrays s)[arr := contents]\<rparr>"

definition record_assign :: "'a store \<Rightarrow> nat \<Rightarrow> 'a IndexedItem \<Rightarrow> 'a store" where
  "record_assign s r v = s\<lparr>records := (records s)[r := v]\<rparr>"

text \<open>An object literal \<open>{ item, embedding, metadata }\<close> written by a caller: a new record.\<close>

definition record_alloc :: "'a store \<Rightarrow> 'a IndexedItem \<Rightarrow> nat \<times> 'a store" where
  "record_alloc s v = (length (records s), s\<lparr>records := records s @ [v]\<rparr>)"

text \<open>
  A store for the examples: two records; array \<open>0\<close> is the index's own array and
  holds the first record, array \<open>1\<close> belongs to a caller and holds both.
\<close>

definition sample_store :: "string store" where
  "sample_store =
     \<lparr> records =
         [\<lparr> IndexedItem.item = ''a'', IndexedItem.embedding = [Fin 1],
            IndexedItem.metadata = None \<rparr>,
          \<lparr> IndexedItem.item = ''b'', IndexedItem.embedding = [Fin 3],
            IndexedItem.metadata = None \<rparr>],
       arrays = [[0], [1, 0]],
       this_indexedItems = 0 \<rparr>"

subsection \<open>The order of the result of \<open>topKSimilar\<close>\<close>


subsection \<open>The result of \<open>search\<close>\<close>

text \<open>
  \<open>survivors thr topk\<close>: the pairs of \<open>topk\<close> whose score is not below the threshold,
  in their order.  \<open>result_of stored (n, idx, sc)\<close>: the result record for the stored
  item \<open>idx\<close> with score \<open>sc\<close> at rank \<open>n\<close>.
\<close>

definition survivors :: "number \<Rightarrow> (nat \<times> number) list \<Rightarrow> (nat \<times> number) list" where
  "survivors thr topk = filter (\<lambda>p. \<not> js_lt (snd p) thr) topk"

definition result_of :: "'a IndexedItem list \<Rightarrow> nat \<times> nat \<times> number \<Rightarrow> 'a SearchResult" where
  "result_of stored =
     (\<lambda>(n, idx, sc).
        \<lparr> SearchResult.item = IndexedItem.item (stored ! idx), score = sc, rank = n \<rparr>)"

text \<open>
  The effective configuration in the words of the specification: a field of the override
  wins, and the stored default applies where the override has none.
\<close>

definition effective_topK :: "'a SemanticSearch \<Rightarrow> 'a PartialSearchConfig \<Rightarrow> int" where
  "effective_topK this ov =
     (case topK_opt ov of None \<Rightarrow> topK (config this) | Some k \<Rightarrow> k)"

definition effective_threshold :: "'a SemanticSearch \<Rightarrow> 'a PartialSearchConfig \<Rightarrow> number" where
  "effective_threshold this ov =
     (case threshold_opt ov of None \<Rightarrow> threshold (config this) | Some t \<Rightarrow> t)"

text \<open>
  \<open>descending xs\<close>: every element is \<open>>=\<close> every later one (so no element is
  \<open>NaN\<close> when there are two or more).
\<close>

definition descending :: "number list \<Rightarrow> bool" where
  "descending xs = sorted_wrt js_ge xs"

text \<open>
  The other numbering: every pair of \<open>topk\<close> gets its 1-based position in \<open>topk\<close>,
  and the survivors keep that number as their rank.
\<close>

definition position_ranked ::
  "'a IndexedItem list \<Rightarrow> number \<Rightarrow> (nat \<times> number) list \<Rightarrow> 'a SearchResult list" where
  "position_ranked stored thr topk =
     map (result_of stored)
       (filter (\<lambda>q. \<not> js_lt (snd (snd q)) thr) (enumerate 1 topk))"

subsection \<open>Example engines and an example index\<close>

text \<open>
  \<open>unit_engine\<close> embeds every text as \<open>[1, 0]\<close>; \<open>failing_engine\<close> throws on every
  call.  \<open>sample_index\<close> holds three items whose cosine similarities to \<open>[1, 0]\<close> are
  \<open>0\<close>, \<open>1\<close> and \<open>-1\<close>, under the default configuration (\<open>topK\<close> 10, threshold 0).
\<close>

definition unit_result :: "string \<Rightarrow> EmbeddingResult" where
  "unit_result t =
     \<lparr> EmbeddingResult.embedding = [Fin 1, Fin 0], source_text = t,
       EmbeddingResult.metadata =
         \<lparr> dimensions = 2, modelName = ''mock'', processingTime = Fin 0 \<rparr> \<rparr>"

definition unit_engine :: SemanticEngine where
  "unit_engine =
     \<lparr> embed = (\<lambda>t. Inr (unit_result t)),
       embedBatch = (\<lambda>texts batchSize. Inr (map unit_result texts)) \<rparr>"

definition inference_error :: error where
  "inference_error = SemanticError EMBEDDING_FAILED ''Failed to generate embedding'' None"

definition failing_engine :: SemanticEngine where
  "failing_engine =
     \<lparr> embed = (\<lambda>t. Inl inference_error),
       embedBatch = (\<lambda>texts batchSize. Inl inference_error) \<rparr>"

definition sample_index :: "string SemanticSearch" where
  "sample_index =
     \<lparr> indexedItems =
         [\<lparr> IndexedItem.item = ''x'', IndexedItem.embedding = [Fin 0, Fin 1],
            IndexedItem.metadata = Some [] \<rparr>,
          \<lparr> IndexedItem.item = ''y'', IndexedItem.embedding = [Fin 1, Fin 0],
            IndexedItem.metadata = Some [] \<rparr>,
          \<lparr> IndexedItem.item = ''z'', IndexedItem.embedding = [Fin (- 1), Fin 0],
            IndexedItem.metadata = Some [] \<rparr>],
       config =
         \<lparr> topK = 10, threshold = Fin 0, textExtractor = (\<lambda>t. t),
           metadataExtractor = (\<lambda>t. []) \<rparr> \<rparr>"

definition no_override :: "'a PartialSearchConfig" where
  "no_override =
     \<lparr> topK_opt = None, threshold_opt = None, textExtractor_opt = None,
       metadataExtractor_opt = None \<rparr>"

text \<open>The override \<open>{ topK: 2, threshold: 0.5 }\<close>.\<close>

definition two_above_half :: "'a PartialSearchConfig" where
  "two_above_half =
     \<lparr> topK_opt = Some 2, threshold_opt = Some (Fin (1 / 2)), textExtractor_opt = None,
       metadataExtractor_opt = None \<rparr>"

subsection \<open>The formulas of the specification on real vectors\<close>

text \<open>
  \<open>real_dot\<close> is the sum of the element-wise products and \<open>real_norm\<close> the Euclidean
  norm, on vectors of real numbers.
\<close>

definition real_dot :: "real list \<Rightarrow> real list \<Rightarrow> real" where
  "real_dot a b = (\<Sum>i<length a. a ! i * b ! i)"

definition real_norm :: "real list \<Rightarrow> real" where
  "real_norm a = sqrt (real_dot a a)"

section \<open>Auxiliary facts\<close>

subsection \<open>Validation\<close>

lemma validatePair_empty:
  "a = [] \<or> b = [] \<Longrightarrow> \<exists>m d. validatePair a b = Inl (SemanticError INVALID_INPUT m d)"
  by (auto simp: validatePair_def validateEmbedding_def)

lemma validatePair_mismatch:
  "a \<noteq> [] \<Longrightarrow> b \<noteq> [] \<Longrightarrow> length a \<noteq> length b \<Longrightarrow>
   validatePair a b =
     Inl (SemanticError DIMENSION_MISMATCH
            (''Embedding dimensions must match. Got '' @ show_nat (length a)
               @ '' and '' @ show_nat (length b))
            (Some (Dimensions (length a) (length b))))"
  by (simp add: validatePair_def validateEmbedding_def validateDimensions_def)

lemma validatePair_ok:
  "a \<noteq> [] \<Longrightarrow> b \<noteq> [] \<Longrightarrow> length a = length b \<Longrightarrow> validatePair a b = Inr ()"
  by (simp add: validatePair_def validateEmbedding_def validateDimensions_def)

lemma pairwise_empty_rejected:
  assumes "a = [] \<or> b = []"
  shows "(\<exists>e. dotProduct a b = Inl e \<and> error_code e = Some INVALID_INPUT) \<and>
         (\<exists>e. cosineSimilarity a b = Inl e \<and> error_code e = Some INVALID_INPUT) \<and>
         (\<exists>e. euclideanDistance a b = Inl e \<and> error_code e = Some INVALID_INPUT)"
proof -
  from validatePair_empty [OF assms] obtain m d
    where "validatePair a b = Inl (SemanticError INVALID_INPUT m d)" by blast
  then show ?thesis
    by (simp add: dotProduct_def cosineSimilarity_def euclideanDistance_def)
qed

text \<open>
  On two non-empty vectors of unequal lengths the three pairwise functions throw the
  error of \<open>validateDimensions\<close>, whose details hold both lengths.
\<close>

lemma pairwise_mismatch_details:
  assumes "a \<noteq> []" and "b \<noteq> []" and "length a \<noteq> length b"
  shows "\<exists>e. dotProduct a b = Inl e \<and> cosineSimilarity a b = Inl e \<and>
             euclideanDistance a b = Inl e \<and>
             error_code e = Some DIMENSION_MISMATCH \<and>
             error_details e = Some (Dimensions (length a) (length b))"
  using validatePair_mismatch [OF assms]
  by (simp add: dotProduct_def cosineSimilarity_def euclideanDistance_def)

lemma centroid_loop_empty:
  "\<forall>e\<in>set es. e = [] \<Longrightarrow> centroid_loop 0 [] es = Inr []"
  by (induction es) simp_all

subsection \<open>Vectors of finite numbers\<close>

text \<open>
  On vectors whose components are all finite the functions compute the formulas of the
  specification on the reals.
\<close>

lemma fold_products_Fin:
  assumes "\<forall>i\<in>set js. i < length a \<and> i < length b"
  shows "fold (\<lambda>i sum. js_add sum (js_mul (map Fin a ! i) (map Fin b ! i))) js (Fin s)
           = Fin (s + (\<Sum>i\<leftarrow>js. a ! i * b ! i))"
  using assms by (induction js arbitrary: s) (simp_all add: add.assoc)

lemma dotProduct_finite:
  assumes "a \<noteq> []" and "length a = length b"
  shows "dotProduct (map Fin a) (map Fin b) = Inr (Fin (real_dot a b))"
proof -
  from assms have "validatePair (map Fin a) (map Fin b) = Inr ()"
    by (intro validatePair_ok) auto
  moreover have "(\<Sum>i\<leftarrow>[0..<length a]. a ! i * b ! i) = real_dot a b"
    by (simp add: real_dot_def interv_sum_list_conv_sum_set_nat atLeast0LessThan)
  ultimately show ?thesis using assms fold_products_Fin [of "[0..<length a]" a b 0]
    by (simp add: dotProduct_def)
qed

lemma real_dot_self_nonneg: "0 \<le> real_dot a a"
  by (simp add: real_dot_def sum_nonneg)

lemma magnitude_finite:
  assumes "a \<noteq> []"
  shows "magnitude (map Fin a) = Inr (Fin (real_norm a))"
proof -
  have "(\<Sum>i\<leftarrow>[0..<length a]. a ! i * a ! i) = real_dot a a"
    by (simp add: real_dot_def interv_sum_list_conv_sum_set_nat atLeast0LessThan)
  with assms fold_products_Fin [of "[0..<length a]" a a 0] real_dot_self_nonneg [of a]
  show ?thesis
    by (simp add: magnitude_def validateEmbedding_def real_norm_def)
qed

lemma cosineSimilarity_finite:
  assumes "a \<noteq> []" and "length a = length b"
  shows "cosineSimilarity (map Fin a) (map Fin b) =
           (if real_norm a = 0 \<or> real_norm b = 0 then
              Inl (SemanticError COMPUTATION_FAILED
                     ''Cannot compute cosine similarity with zero-magnitude vector''
                     (Some (Magnitudes (Fin (real_norm a)) (Fin (real_norm b)))))
            else Inr (Fin (real_dot a b / (real_norm a * real_norm b))))"
proof -
  from assms have b: "b \<noteq> []" by auto
  from assms have "validatePair (map Fin a) (map Fin b) = Inr ()"
    by (intro validatePair_ok) auto
  with dotProduct_finite [OF assms] magnitude_finite [OF assms(1)] magnitude_finite [OF b]
  show ?thesis
    by (simp add: cosineSimilarity_def)
qed

subsection \<open>The comparison of scores\<close>

lemma js_lt_irrefl [simp]: "\<not> js_lt x x"
  by (cases x) simp_all



lemma js_ge_lt_trans: "js_ge x y \<Longrightarrow> js_lt x z \<Longrightarrow> js_lt y z"
  by (cases x; cases y; cases z) simp_all



subsection \<open>The sort\<close>

lemma set_sort_insert [simp]: "set (sort_insert c x ys) = insert x (set ys)"
  by (induction ys) auto

lemma length_sort_insert [simp]: "length (sort_insert c x ys) = Suc (length ys)"
  by (induction ys) auto

lemma set_array_sort [simp]: "set (array_sort c xs) = set xs"
  by (induction xs) (simp_all add: array_sort_def)

lemma length_array_sort [simp]: "length (array_sort c xs) = length xs"
  by (induction xs) (simp_all add: array_sort_def)



subsection \<open>\<open>topKSimilar\<close>\<close>

lemma similarities_nth:
  "similarities q cs = map (\<lambda>i. (i, candidate_score q (cs ! i))) [0..<length cs]"
  by (rule nth_equalityI) (simp_all add: similarities_def nth_enumerate_eq)


lemma set_similarities:
  "set (similarities q cs) = (\<lambda>i. (i, candidate_score q (cs ! i))) ` {0..<length cs}"
  by (simp add: similarities_nth)

lemma topKSimilar_eq:
  assumes "query \<noteq> []" and "candidates \<noteq> []" and "0 < k"
  shows "topKSimilar query candidates k =
           Inr (take (min (nat k) (length candidates))
                  (array_sort (\<lambda>a b. js_sub (snd b) (snd a))
                     (similarities query candidates)))"
proof -
  have "length (similarities query candidates) = length candidates"
    by (simp add: similarities_nth)
  moreover from assms
  have "nat (min k (int (length candidates))) = min (nat k) (length candidates)"
    by (auto simp: min_def)
  ultimately show ?thesis using assms
    by (simp add: topKSimilar_def validateEmbedding_def Let_def)
qed


lemma members_top:
  assumes "p \<in> set (take n (array_sort c (similarities query candidates)))"
  shows "fst p < length candidates \<and> snd p = candidate_score query (candidates ! fst p)"
proof -
  from assms have "p \<in> set (array_sort c (similarities query candidates))"
    by (rule in_set_takeD)
  then show ?thesis by (auto simp: set_similarities)
qed

text \<open>Whatever \<open>topKSimilar\<close> returns refers to candidates that exist.\<close>

lemma topKSimilar_returned:
  assumes "topKSimilar query candidates k = Inr r"
  shows "\<forall>p\<in>set r. fst p < length candidates"
proof (cases "query \<noteq> [] \<and> candidates \<noteq> [] \<and> 0 < k")
  case True
  with assms topKSimilar_eq [of query candidates k]
  have "r = take (min (nat k) (length candidates))
              (array_sort (\<lambda>a b. js_sub (snd b) (snd a)) (similarities query candidates))"
    by simp
  then show ?thesis using members_top by blast
next
  case False
  with assms have "r = []"
    by (auto simp: topKSimilar_def validateEmbedding_def split: if_splits)
  then show ?thesis by simp
qed

subsection \<open>The loop of \<open>search\<close>\<close>

lemma rank_loop_eq:
  assumes "\<forall>p\<in>set topk. fst p < length stored"
  shows "rank_loop stored thr topk rnk results =
           Inr (results @ map (result_of stored) (enumerate rnk (survivors thr topk)))"
  using assms
proof (induction topk arbitrary: rnk results)
  case Nil
  then show ?case by (simp add: survivors_def)
next
  case (Cons p topk)
  obtain idx sc where p: "p = (idx, sc)" by (cases p)
  from Cons.prems have "\<forall>p\<in>set topk. fst p < length stored" and "idx < length stored"
    by (simp_all add: p)
  with Cons.IH show ?case
    by (simp add: p result_of_def survivors_def)
qed

lemma survivors_descending:
  assumes "descending (map snd topk)"
  shows "descending (map snd (survivors thr topk))"
proof -
  from assms have "sorted_wrt (\<lambda>p q. js_ge (snd p) (snd q)) topk"
    by (simp add: descending_def sorted_wrt_map)
  then have "sorted_wrt (\<lambda>p q. js_ge (snd p) (snd q)) (survivors thr topk)"
    unfolding survivors_def by (rule sorted_wrt_filter)
  then show ?thesis by (simp add: descending_def sorted_wrt_map)
qed

text \<open>
  In a descending list every pair after one below the threshold is below it too, so
  nothing survives behind a discarded pair, and numbering the survivors gives each the
  number of its position in the whole list.
\<close>

lemma none_survive_below:
  assumes "js_lt (snd x) thr" and "\<forall>y\<in>set xs. js_ge (snd x) (snd y)"
  shows "filter (\<lambda>p. \<not> js_lt (snd p) thr) xs = []"
    and "filter (\<lambda>q. \<not> js_lt (snd (snd q)) thr) (enumerate n xs) = []"
proof -
  from assms have below: "\<forall>y\<in>set xs. js_lt (snd y) thr"
    by (auto intro: js_ge_lt_trans)
  then show "filter (\<lambda>p. \<not> js_lt (snd p) thr) xs = []"
    by (simp add: filter_empty_conv)
  from below show "filter (\<lambda>q. \<not> js_lt (snd (snd q)) thr) (enumerate n xs) = []"
    by (fastforce simp: filter_empty_conv enumerate_eq_zip dest: set_zip_rightD)
qed

lemma survivors_keep_position:
  assumes "descending (map snd topk)"
  shows "enumerate n (survivors thr topk)
           = filter (\<lambda>q. \<not> js_lt (snd (snd q)) thr) (enumerate n topk)"
  using assms
proof (induction topk arbitrary: n)
  case Nil
  then show ?case by (simp add: survivors_def)
next
  case (Cons x xs)
  from Cons.prems have later: "\<forall>y\<in>set xs. js_ge (snd x) (snd y)"
    and rest: "descending (map snd xs)"
    by (simp_all add: descending_def)
  show ?case
  proof (cases "js_lt (snd x) thr")
    case True
    from none_survive_below [OF True later] True show ?thesis
      by (simp add: survivors_def)
  next
    case False
    with Cons.IH [OF rest] show ?thesis by (simp add: survivors_def)
  qed
qed

lemma survivors_prefix:
  assumes "descending (map snd topk)"
  shows "survivors thr topk = take (length (survivors thr topk)) topk"
  using assms
proof (induction topk)
  case Nil
  then show ?case by (simp add: survivors_def)
next
  case (Cons x xs)
  from Cons.prems have later: "\<forall>y\<in>set xs. js_ge (snd x) (snd y)"
    and rest: "descending (map snd xs)"
    by (simp_all add: descending_def)
  show ?case
  proof (cases "js_lt (snd x) thr")
    case True
    from none_survive_below(1) [OF True later] True show ?thesis
      by (simp add: survivors_def)
  next
    case False
    with Cons.IH [OF rest] show ?thesis by (simp add: survivors_def)
  qed
qed

lemma search_state: "snd (search engine this query cfg) = this"
  by (simp add: search_def Let_def split: sum.split)

lemma merge_config_effective:
  "topK (merge_config (config this) ov) = effective_topK this ov"
  "threshold (merge_config (config this) ov) = effective_threshold this ov"
  by (simp_all add: merge_config_def effective_topK_def effective_threshold_def)

subsection \<open>The store\<close>

text \<open>A record that a caller creates is new: the index's stored items are as before.\<close>

lemma stored_items_record_alloc:
  assumes "\<forall>r\<in>set (arrays s ! this_indexedItems s). r < length (records s)"
  shows "stored_items (snd (record_alloc s v)) = stored_items s"
  using assms by (simp add: stored_items_def record_alloc_def nth_append)

section \<open>The claims\<close>

text \<open>
  Claim C1 (export and import copy in both directions).  \<open>[...arr]\<close> copies the
  sequence of references and nothing below it.  What holds is the sequence half of the
  claim: the array returned by \<open>exportIndex\<close> is a new one with the same records, and
  giving it any other contents leaves the index's stored items as they were; after
  \<open>importIndex(snapshot)\<close> the index holds the snapshot's records in an array of its
  own, and giving the caller's snapshot array any other contents leaves the stored items
  as they were.  The records are shared: the second theorem below assigns a new
  embedding to a record reached through the exported array, and to one reached through
  the caller's snapshot after an import, and the index's stored items change.
\<close>

theorem export_import_copy_the_sequence:
  assumes "this_indexedItems s < length (arrays s)" and "snapshot < length (arrays s)"
  shows "fst (exportIndex s) \<noteq> this_indexedItems (snd (exportIndex s)) \<and>
         arrays (snd (exportIndex s)) ! fst (exportIndex s) = arrays s ! this_indexedItems s \<and>
         stored_items (snd (exportIndex s)) = stored_items s \<and>
         stored_items (array_assign (snd (exportIndex s)) (fst (exportIndex s)) contents)
           = stored_items s \<and>
         stored_items (importIndex s snapshot)
           = map (\<lambda>r. records s ! r) (arrays s ! snapshot) \<and>
         stored_items (array_assign (importIndex s snapshot) snapshot contents)
           = stored_items (importIndex s snapshot)"
  using assms
  by (simp add: exportIndex_def importIndex_def spread_def stored_items_def
        array_assign_def nth_append)

theorem export_import_copy_the_sequence_witness:
  "stored_items
     (array_assign (snd (exportIndex sample_store)) (fst (exportIndex sample_store)) [1, 1])
     = stored_items sample_store \<and>
   stored_items (importIndex sample_store 1)
     = [\<lparr> IndexedItem.item = ''b'', IndexedItem.embedding = [Fin 3],
          IndexedItem.metadata = None \<rparr>,
        \<lparr> IndexedItem.item = ''a'', IndexedItem.embedding = [Fin 1],
          IndexedItem.metadata = None \<rparr>] \<and>
   stored_items (array_assign (importIndex sample_store 1) 1 [])
     = stored_items (importIndex sample_store 1)"
  using export_import_copy_the_sequence [of sample_store 1 "[1, 1]"]
        export_import_copy_the_sequence [of sample_store 1 "[]"]
  by (simp add: sample_store_def)

theorem export_import_share_records:
  "stored_items
     (record_assign (snd (exportIndex sample_store))
        (arrays (snd (exportIndex sample_store)) ! fst (exportIndex sample_store) ! 0)
        \<lparr> IndexedItem.item = ''a'', IndexedItem.embedding = [Fin 2],
          IndexedItem.metadata = None \<rparr>)
     \<noteq> stored_items (snd (exportIndex sample_store)) \<and>
   stored_items
     (record_assign (importIndex sample_store 1)
        (arrays (importIndex sample_store 1) ! 1 ! 0)
        \<lparr> IndexedItem.item = ''b'', IndexedItem.embedding = [Fin 2],
          IndexedItem.metadata = None \<rparr>)
     \<noteq> stored_items (importIndex sample_store 1)"
  by (simp add: exportIndex_def importIndex_def spread_def stored_items_def
        record_assign_def sample_store_def)

text \<open>
  Claim C2 (a failing \<open>embedBatch\<close> leaves the index as it was).  On a non-empty
  \<open>items\<close> list whose batch embedding fails, \<open>index\<close> throws the engine's error and
  adds no item.  With \<open>replace\<close> false the state is the state before the call; with
  \<open>replace\<close> true the contents were discarded before the engine was called, so the
  index is left empty and only the configuration is what it was.  The second theorem
  below is a replacing call on the three-item example index.
\<close>

theorem index_embedBatch_failure:
  assumes "items \<noteq> []"
    and "embedBatch engine (map (textExtractor (config this)) items) 32 = Inl e"
  shows "index engine this items replace =
           (Inl e, if replace then this\<lparr>indexedItems := []\<rparr> else this)"
  using assms by (simp add: index_def Let_def)

theorem index_embedBatch_failure_witness:
  "index failing_engine sample_index [''w''] False = (Inl inference_error, sample_index) \<and>
   index failing_engine sample_index [''w''] True
     = (Inl inference_error, sample_index\<lparr>indexedItems := []\<rparr>)"
  using index_embedBatch_failure [of "[''w'']" failing_engine sample_index inference_error False]
        index_embedBatch_failure [of "[''w'']" failing_engine sample_index inference_error True]
  by (simp add: failing_engine_def)

theorem index_replace_failure_empties:
  "indexedItems (snd (index failing_engine sample_index [''w''] True))
     \<noteq> indexedItems sample_index"
  by (simp add: index_def Let_def failing_engine_def sample_index_def)

text \<open>
  Claim C3 (the guards of \<open>topKSimilar\<close>).  The guards run in the order: empty query,
  empty candidates, non-positive \<open>k\<close>.  So an empty query fails with \<open>INVALID_INPUT\<close>
  for every candidates list and every \<open>k\<close>; a non-empty query with no candidates
  returns the empty sequence for every \<open>k\<close>, the non-positive ones included; and a
  non-positive \<open>k\<close> fails with \<open>INVALID_INPUT\<close> when the query and the candidates list
  are both non-empty.  The second theorem below is the call with no candidates and
  \<open>k = 0\<close>, which returns the empty sequence.
\<close>

theorem topKSimilar_guard_order:
  "(query = [] \<longrightarrow>
      topKSimilar query candidates k =
        Inl (SemanticError INVALID_INPUT ''query must be a non-empty array''
               (Some (Length 0)))) \<and>
   (query \<noteq> [] \<and> candidates = [] \<longrightarrow> topKSimilar query candidates k = Inr []) \<and>
   (query \<noteq> [] \<and> candidates \<noteq> [] \<and> k \<le> 0 \<longrightarrow>
      topKSimilar query candidates k =
        Inl (SemanticError INVALID_INPUT ''k must be positive'' (Some (K k))))"
  by (simp add: topKSimilar_def validateEmbedding_def)

theorem topKSimilar_guard_order_witness:
  "topKSimilar [] [[Fin 1]] 3 =
     Inl (SemanticError INVALID_INPUT ''query must be a non-empty array'' (Some (Length 0))) \<and>
   topKSimilar [Fin 1] [] (- 2) = Inr [] \<and>
   topKSimilar [Fin 1] [[Fin 1]] 0 =
     Inl (SemanticError INVALID_INPUT ''k must be positive'' (Some (K 0)))"
  using topKSimilar_guard_order [of "[]" "[[Fin 1]]" 3]
        topKSimilar_guard_order [of "[Fin 1]" "[]" "- 2"]
        topKSimilar_guard_order [of "[Fin 1]" "[[Fin 1]]" 0]
  by simp

theorem topKSimilar_no_candidates_zero_k:
  "topKSimilar [Fin 1] [] 0 = Inr []"
  by (simp add: topKSimilar_def validateEmbedding_def)

text \<open>
  Claim C4 (a dimension mismatch carries both lengths in the error details).  The
  pairwise functions do so through \<open>validateDimensions\<close> (lemma
  \<open>pairwise_mismatch_details\<close>).  \<open>centroid\<close> builds its own error and passes no
  details: on the vectors \<open>[1, 2]\<close> and \<open>[1, 2, 3]\<close> it throws \<open>DIMENSION_MISMATCH\<close>
  with no details at all, so the lengths 2 and 3 are not in the error.
\<close>

theorem centroid_mismatch_without_details:
  "centroid [[Fin 1, Fin 2], [Fin 1, Fin 2, Fin 3]] =
     Inl (SemanticError DIMENSION_MISMATCH ''All embeddings must have same dimensions'' None) \<and>
   dotProduct [Fin 1, Fin 2] [Fin 1, Fin 2, Fin 3] =
     Inl (SemanticError DIMENSION_MISMATCH ''Embedding dimensions must match. Got 2 and 3''
            (Some (Dimensions 2 3)))"
  by (simp add: centroid_def dotProduct_def validatePair_def validateEmbedding_def
        validateDimensions_def)

text \<open>
  Claim C5 (ranks are assigned after the threshold filter).  When the index is not
  empty, the engine embeds the query and \<open>topKSimilar\<close>, called with the effective
  \<open>topK\<close>, returns \<open>topk\<close>, then \<open>search\<close> returns one result for each pair of
  \<open>topk\<close> whose score is not below the effective threshold, in the order of \<open>topk\<close>:
  the scores and items are those of the surviving pairs and the ranks are
  \<open>1, 2, ..., n\<close> for \<open>n\<close> survivors.  The effective values are the override's where
  it has the field and the stored ones otherwise.  When the scores of \<open>topk\<close> are
  descending, those of the results are descending too, so rank 1 is the best survivor.
  What does not hold is that the ranks differ from the pre-filter positions: in a
  descending list the survivors are the first \<open>n\<close> pairs, so the rank of every result
  is also its position in \<open>topk\<close>.  The third theorem below is a search on the example
  index that discards one of three pairs and ranks the other two by their positions.
\<close>

theorem search_ranks_after_filtering:
  assumes "indexedItems this \<noteq> []"
    and "embed engine query = Inr queryResult"
    and "topKSimilar (EmbeddingResult.embedding queryResult)
           (map IndexedItem.embedding (indexedItems this))
           (effective_topK this overrideConfig) = Inr topk"
  shows "\<exists>results.
           fst (search engine this query overrideConfig) = Inr results \<and>
           map score results =
             map snd (survivors (effective_threshold this overrideConfig) topk) \<and>
           map SearchResult.item results =
             map (\<lambda>p. IndexedItem.item (indexedItems this ! fst p))
               (survivors (effective_threshold this overrideConfig) topk) \<and>
           map rank results =
             [1..<Suc (length (survivors (effective_threshold this overrideConfig) topk))] \<and>
           (descending (map snd topk) \<longrightarrow>
              descending (map score results) \<and>
              survivors (effective_threshold this overrideConfig) topk =
                take (length results) topk \<and>
              results =
                position_ranked (indexedItems this)
                  (effective_threshold this overrideConfig) topk)"
proof -
  let ?thr = "effective_threshold this overrideConfig"
  let ?surv = "survivors ?thr topk"
  let ?results = "map (result_of (indexedItems this)) (enumerate 1 ?surv)"
  from topKSimilar_returned [OF assms(3)]
  have rng: "\<forall>p\<in>set topk. fst p < length (indexedItems this)" by simp
  then have "rank_loop (indexedItems this) ?thr topk 1 [] = Inr ?results"
    by (simp add: rank_loop_eq)
  with assms have r: "fst (search engine this query overrideConfig) = Inr ?results"
    by (simp add: search_def Let_def merge_config_effective)
  have sc: "map score ?results = map snd ?surv"
    by (rule nth_equalityI) (simp_all add: result_of_def nth_enumerate_eq case_prod_unfold)
  have it: "map SearchResult.item ?results =
      map (\<lambda>p. IndexedItem.item (indexedItems this ! fst p)) ?surv"
    by (rule nth_equalityI) (simp_all add: result_of_def nth_enumerate_eq case_prod_unfold)
  have "rank \<circ> result_of (indexedItems this) = fst"
    by (rule ext) (simp add: result_of_def case_prod_unfold)
  then have "map rank ?results = map fst (enumerate 1 ?surv)"
    by (simp only: map_map)
  also have "\<dots> = [1..<Suc (length ?surv)]"
    by (simp only: map_fst_enumerate) simp
  finally have rk: "map rank ?results = [1..<Suc (length ?surv)]" .
  have ds: "descending (map score ?results) \<and> ?surv = take (length ?results) topk \<and>
      ?results = position_ranked (indexedItems this) ?thr topk"
    if d: "descending (map snd topk)"
  proof -
    from d have "descending (map snd ?surv)" by (rule survivors_descending)
    with sc have "descending (map score ?results)" by simp
    moreover from survivors_prefix [OF d, of ?thr]
    have "?surv = take (length ?results) topk" by simp
    moreover from survivors_keep_position [OF d, of 1 ?thr]
    have "?results = position_ranked (indexedItems this) ?thr topk"
      by (simp add: position_ranked_def)
    ultimately show ?thesis by blast
  qed
  from r sc it rk ds show ?thesis by blast
qed

theorem search_ranks_after_filtering_witness:
  "(\<exists>results.
      fst (search unit_engine sample_index ''q'' two_above_half) = Inr results \<and>
      map score results = [Fin 1] \<and>
      map SearchResult.item results = [''y''] \<and>
      map rank results = [1] \<and>
      descending (map score results)) \<and>
   (\<exists>results.
      fst (search unit_engine sample_index ''q'' no_override) = Inr results \<and>
      map score results = [Fin 1, Fin 0] \<and>
      map SearchResult.item results = [''y'', ''x''] \<and>
      map rank results = [1, 2] \<and>
      descending (map score results))"
proof -
  have ne: "indexedItems sample_index \<noteq> []"
    by (simp add: sample_index_def)
  have emb: "embed unit_engine ''q'' = Inr (unit_result ''q'')"
    by (simp add: unit_engine_def)
  have k2: "effective_topK sample_index two_above_half = 2"
    and t2: "effective_threshold sample_index two_above_half = Fin (1 / 2)"
    and k0: "effective_topK sample_index (no_override :: string PartialSearchConfig) = 10"
    and t0: "effective_threshold sample_index (no_override :: string PartialSearchConfig) = Fin 0"
    by (simp_all add: effective_topK_def effective_threshold_def two_above_half_def
          no_override_def sample_index_def)
  have tk2: "topKSimilar (EmbeddingResult.embedding (unit_result ''q''))
               (map IndexedItem.embedding (indexedItems sample_index))
               (effective_topK sample_index two_above_half)
             = Inr [(1, Fin 1), (0, Fin 0)]"
    unfolding k2
    by (simp add: unit_result_def sample_index_def
          topKSimilar_def similarities_def candidate_score_def array_sort_def
          cosineSimilarity_def dotProduct_def magnitude_def validatePair_def
          validateEmbedding_def validateDimensions_def enumerate_eq_zip)
  have tk0: "topKSimilar (EmbeddingResult.embedding (unit_result ''q''))
               (map IndexedItem.embedding (indexedItems sample_index))
               (effective_topK sample_index no_override)
             = Inr [(1, Fin 1), (0, Fin 0), (2, Fin (- 1))]"
    unfolding k0
    by (simp add: unit_result_def sample_index_def
          topKSimilar_def similarities_def candidate_score_def array_sort_def
          cosineSimilarity_def dotProduct_def magnitude_def validatePair_def
          validateEmbedding_def validateDimensions_def enumerate_eq_zip)
  have sv2: "survivors (Fin (1 / 2)) [(1, Fin 1), (0, Fin 0)] = [(1 :: nat, Fin 1)]"
    and sv0: "survivors (Fin 0) [(1, Fin 1), (0, Fin 0), (2, Fin (- 1))]
                = [(1 :: nat, Fin 1), (0, Fin 0)]"
    by (simp_all add: survivors_def)
  have d2: "descending (map snd [(1 :: nat, Fin 1), (0, Fin 0)])"
    and d0: "descending (map snd [(1 :: nat, Fin 1), (0, Fin 0), (2, Fin (- 1))])"
    by (simp_all add: descending_def)
  have i2: "map (\<lambda>p. IndexedItem.item (indexedItems sample_index ! fst p))
              [(1 :: nat, Fin 1)] = [''y'']"
    and i0: "map (\<lambda>p. IndexedItem.item (indexedItems sample_index ! fst p))
              [(1 :: nat, Fin 1), (0, Fin 0)] = [''y'', ''x'']"
    by (simp_all add: sample_index_def)
  have r2: "[1..<Suc (length [(1 :: nat, Fin 1)])] = [1]"
    and r0: "[1..<Suc (length [(1 :: nat, Fin 1), (0, Fin 0)])] = [1, 2]"
    by (simp_all add: upt_rec)
  from search_ranks_after_filtering [OF ne emb tk2]
  have a: "\<exists>results.
      fst (search unit_engine sample_index ''q'' two_above_half) = Inr results \<and>
      map score results = [Fin 1] \<and>
      map SearchResult.item results = [''y''] \<and>
      map rank results = [1] \<and>
      descending (map score results)"
    unfolding t2 sv2 i2 r2 using d2 by auto
  from search_ranks_after_filtering [OF ne emb tk0]
  have b: "\<exists>results.
      fst (search unit_engine sample_index ''q'' no_override) = Inr results \<and>
      map score results = [Fin 1, Fin 0] \<and>
      map SearchResult.item results = [''y'', ''x''] \<and>
      map rank results = [1, 2] \<and>
      descending (map score results)"
    unfolding t0 sv0 i0 r0 using d0 by auto
  from a b show ?thesis by blast
qed

theorem search_rank_is_prefilter_position:
  "topKSimilar [Fin 1, Fin 0] (map IndexedItem.embedding (indexedItems sample_index)) 10
     = Inr [(1, Fin 1), (0, Fin 0), (2, Fin (- 1))] \<and>
   descending (map snd [(1 :: nat, Fin 1), (0, Fin 0), (2, Fin (- 1))]) \<and>
   fst (search unit_engine sample_index ''q'' no_override)
     = Inr [\<lparr> SearchResult.item = ''y'', score = Fin 1, rank = 1 \<rparr>,
            \<lparr> SearchResult.item = ''x'', score = Fin 0, rank = 2 \<rparr>] \<and>
   position_ranked (indexedItems sample_index) (Fin 0)
       [(1, Fin 1), (0, Fin 0), (2, Fin (- 1))]
     = [\<lparr> SearchResult.item = ''y'', score = Fin 1, rank = 1 \<rparr>,
        \<lparr> SearchResult.item = ''x'', score = Fin 0, rank = 2 \<rparr>]"
proof -
  have tk: "topKSimilar [Fin 1, Fin 0]
              (map IndexedItem.embedding (indexedItems sample_index)) 10
            = Inr [(1, Fin 1), (0, Fin 0), (2, Fin (- 1))]"
    by (simp add: sample_index_def
          topKSimilar_def similarities_def candidate_score_def array_sort_def
          cosineSimilarity_def dotProduct_def magnitude_def validatePair_def
          validateEmbedding_def validateDimensions_def enumerate_eq_zip)
  have d: "descending (map snd [(1 :: nat, Fin 1), (0, Fin 0), (2, Fin (- 1))])"
    by (simp add: descending_def)
  have "rank_loop (indexedItems sample_index) (Fin 0)
          [(1, Fin 1), (0, Fin 0), (2, Fin (- 1))] 1 []
        = Inr [\<lparr> SearchResult.item = ''y'', score = Fin 1, rank = 1 \<rparr>,
               \<lparr> SearchResult.item = ''x'', score = Fin 0, rank = 2 \<rparr>]"
    by (simp add: sample_index_def)
  with tk have s: "fst (search unit_engine sample_index ''q'' no_override)
        = Inr [\<lparr> SearchResult.item = ''y'', score = Fin 1, rank = 1 \<rparr>,
               \<lparr> SearchResult.item = ''x'', score = Fin 0, rank = 2 \<rparr>]"
    by (simp add: search_def Let_def unit_engine_def unit_result_def merge_config_def
          no_override_def sample_index_def)
  have p: "position_ranked (indexedItems sample_index) (Fin 0)
             [(1, Fin 1), (0, Fin 0), (2, Fin (- 1))]
           = [\<lparr> SearchResult.item = ''y'', score = Fin 1, rank = 1 \<rparr>,
              \<lparr> SearchResult.item = ''x'', score = Fin 0, rank = 2 \<rparr>]"
    by (simp add: position_ranked_def result_of_def sample_index_def enumerate_eq_zip
          upt_rec)
  from tk d s p show ?thesis by blast
qed

text \<open>
  Claim C6 (\<open>searchWithFilter\<close> restores the index).  Whatever the inner \<open>search\<close>
  does, return or throw, the state after \<open>searchWithFilter\<close> is the state before it;
  and when the predicate holds of no stored item's metadata the call throws the
  \<open>INVALID_INPUT\<close> error of a search on an empty index.
\<close>

theorem searchWithFilter_restores:
  "snd (searchWithFilter engine this query flt cfg) = this \<and>
   ((\<forall>it\<in>set (indexedItems this).
        \<not> flt (case IndexedItem.metadata it of None \<Rightarrow> [] | Some m \<Rightarrow> m)) \<longrightarrow>
      fst (searchWithFilter engine this query flt cfg) =
        Inl (SemanticError INVALID_INPUT
               ''Index is empty. Call index() before searching.'' None) \<and>
      fst (searchWithFilter engine this query flt cfg) =
        fst (search engine (clear this) query cfg))"
proof -
  let ?this1 = "this\<lparr>indexedItems :=
      filter (\<lambda>it. flt (case IndexedItem.metadata it of None \<Rightarrow> [] | Some m \<Rightarrow> m))
        (indexedItems this)\<rparr>"
  have eq: "searchWithFilter engine this query flt cfg =
      (fst (search engine ?this1 query cfg),
       (snd (search engine ?this1 query cfg))\<lparr>indexedItems := indexedItems this\<rparr>)"
    by (simp add: searchWithFilter_def Let_def case_prod_unfold)
  have a: "snd (searchWithFilter engine this query flt cfg) = this"
    by (simp add: eq search_state)
  have b: "fst (searchWithFilter engine this query flt cfg) =
        Inl (SemanticError INVALID_INPUT
               ''Index is empty. Call index() before searching.'' None) \<and>
      fst (searchWithFilter engine this query flt cfg) =
        fst (search engine (clear this) query cfg)"
    if "\<forall>it\<in>set (indexedItems this).
        \<not> flt (case IndexedItem.metadata it of None \<Rightarrow> [] | Some m \<Rightarrow> m)"
  proof -
    from that
    have "filter (\<lambda>it. flt (case IndexedItem.metadata it of None \<Rightarrow> [] | Some m \<Rightarrow> m))
        (indexedItems this) = []"
      by (simp add: filter_empty_conv)
    then show ?thesis
      by (simp add: eq search_def clear_def)
  qed
  from a b show ?thesis by blast
qed

theorem searchWithFilter_restores_witness:
  "snd (searchWithFilter unit_engine sample_index ''q'' (\<lambda>m. True) no_override)
     = sample_index \<and>
   snd (searchWithFilter failing_engine sample_index ''q'' (\<lambda>m. True) no_override)
     = sample_index \<and>
   searchWithFilter unit_engine sample_index ''q'' (\<lambda>m. False) no_override =
     (Inl (SemanticError INVALID_INPUT
             ''Index is empty. Call index() before searching.'' None), sample_index)"
  using searchWithFilter_restores [of unit_engine sample_index "''q''" "\<lambda>m. True" no_override]
        searchWithFilter_restores [of failing_engine sample_index "''q''" "\<lambda>m. True" no_override]
        searchWithFilter_restores [of unit_engine sample_index "''q''" "\<lambda>m. False" no_override]
  by (simp add: prod_eq_iff)




text \<open>
  Claim C8 (\<open>cosineSimilarity\<close>).  On two non-empty vectors: if the lengths differ the
  call throws \<open>DIMENSION_MISMATCH\<close> with both lengths, whatever the magnitudes are (the
  length check comes first); if the lengths agree, the dot product and both magnitudes
  are defined, the call throws \<open>COMPUTATION_FAILED\<close> when a magnitude is zero and
  otherwise returns the dot product divided by the product of the magnitudes.  On
  vectors of finite numbers these are the real dot product and norms (lemma
  \<open>cosineSimilarity_finite\<close>).
\<close>

theorem cosineSimilarity_cases:
  assumes "a \<noteq> []" and "b \<noteq> []"
  shows "(length a \<noteq> length b \<longrightarrow>
            cosineSimilarity a b =
              Inl (SemanticError DIMENSION_MISMATCH
                     (''Embedding dimensions must match. Got '' @ show_nat (length a)
                        @ '' and '' @ show_nat (length b))
                     (Some (Dimensions (length a) (length b))))) \<and>
         (length a = length b \<longrightarrow>
            (\<exists>dot magA magB.
               dotProduct a b = Inr dot \<and> magnitude a = Inr magA \<and>
               magnitude b = Inr magB \<and>
               cosineSimilarity a b =
                 (if js_eq magA (Fin 0) \<or> js_eq magB (Fin 0) then
                    Inl (SemanticError COMPUTATION_FAILED
                           ''Cannot compute cosine similarity with zero-magnitude vector''
                           (Some (Magnitudes magA magB)))
                  else Inr (js_div dot (js_mul magA magB)))))"
proof (cases "length a = length b")
  case False
  with assms show ?thesis
    by (simp add: cosineSimilarity_def validatePair_mismatch)
next
  case True
  with assms have "validatePair a b = Inr ()" by (simp add: validatePair_ok)
  moreover from assms have "validateEmbedding a ''embedding'' = Inr ()"
    and "validateEmbedding b ''embedding'' = Inr ()"
    by (simp_all add: validateEmbedding_def)
  ultimately show ?thesis using True
    by (simp add: cosineSimilarity_def dotProduct_def magnitude_def)
qed

theorem cosineSimilarity_cases_witness:
  "cosineSimilarity [Fin 0, Fin 0] [Fin 0, Fin 0, Fin 0] =
     Inl (SemanticError DIMENSION_MISMATCH ''Embedding dimensions must match. Got 2 and 3''
            (Some (Dimensions 2 3))) \<and>
   cosineSimilarity [Fin 0, Fin 0] [Fin 3, Fin 4] =
     Inl (SemanticError COMPUTATION_FAILED
            ''Cannot compute cosine similarity with zero-magnitude vector''
            (Some (Magnitudes (Fin 0) (Fin 5)))) \<and>
   cosineSimilarity [Fin 3, Fin 4] [Fin 3, Fin 4] = Inr (Fin 1)"
  using cosineSimilarity_cases [of "[Fin 0, Fin 0]" "[Fin 0, Fin 0, Fin 0]"]
        cosineSimilarity_cases [of "[Fin 0, Fin 0]" "[Fin 3, Fin 4]"]
        cosineSimilarity_cases [of "[Fin 3, Fin 4]" "[Fin 3, Fin 4]"]
  by (simp add: dotProduct_def magnitude_def validatePair_def validateEmbedding_def
        validateDimensions_def)

text \<open>
  Claim C9 (emptiness is checked before the lengths are compared).  When either
  vector is empty, \<open>dotProduct\<close>, \<open>cosineSimilarity\<close> and \<open>euclideanDistance\<close> each
  throw an error whose code is \<open>INVALID_INPUT\<close>, also when the two lengths differ.
\<close>

theorem empty_checked_before_dimensions:
  assumes "a = [] \<or> b = []"
  shows "(\<exists>e. dotProduct a b = Inl e \<and> error_code e = Some INVALID_INPUT) \<and>
         (\<exists>e. cosineSimilarity a b = Inl e \<and> error_code e = Some INVALID_INPUT) \<and>
         (\<exists>e. euclideanDistance a b = Inl e \<and> error_code e = Some INVALID_INPUT)"
  using assms by (rule pairwise_empty_rejected)

theorem empty_checked_before_dimensions_witness:
  "dotProduct [] [Fin 1, Fin 2] =
     Inl (SemanticError INVALID_INPUT ''first embedding must be a non-empty array''
            (Some (Length 0))) \<and>
   cosineSimilarity [Fin 1, Fin 2] [] =
     Inl (SemanticError INVALID_INPUT ''second embedding must be a non-empty array''
            (Some (Length 0))) \<and>
   euclideanDistance [] [Fin 1, Fin 2] =
     Inl (SemanticError INVALID_INPUT ''first embedding must be a non-empty array''
            (Some (Length 0)))"
  using empty_checked_before_dimensions [of "[]" "[Fin 1, Fin 2]"]
        empty_checked_before_dimensions [of "[Fin 1, Fin 2]" "[]"]
  by (simp add: dotProduct_def cosineSimilarity_def euclideanDistance_def validatePair_def
        validateEmbedding_def)

text \<open>
  Claim C10 (\<open>centroid\<close> accepts empty component vectors).  On a non-empty list whose
  vectors all have length zero \<open>centroid\<close> returns the empty vector, while
  \<open>dotProduct\<close>, \<open>magnitude\<close> and \<open>cosineSimilarity\<close> throw \<open>INVALID_INPUT\<close> on an
  empty vector, in either argument position.
\<close>

theorem centroid_accepts_empty_vectors:
  assumes "embeddings \<noteq> []" and "\<forall>e\<in>set embeddings. length e = 0"
  shows "centroid embeddings = Inr [] \<and>
         (\<exists>e. dotProduct [] b = Inl e \<and> error_code e = Some INVALID_INPUT) \<and>
         (\<exists>e. dotProduct b [] = Inl e \<and> error_code e = Some INVALID_INPUT) \<and>
         (\<exists>e. magnitude [] = Inl e \<and> error_code e = Some INVALID_INPUT) \<and>
         (\<exists>e. cosineSimilarity [] b = Inl e \<and> error_code e = Some INVALID_INPUT) \<and>
         (\<exists>e. cosineSimilarity b [] = Inl e \<and> error_code e = Some INVALID_INPUT)"
proof -
  from assms obtain first others where eq: "embeddings = first # others"
    by (cases embeddings) auto
  with assms have "first = []" by simp
  moreover from assms have "centroid_loop 0 [] embeddings = Inr []"
    by (intro centroid_loop_empty) simp
  ultimately have c: "centroid embeddings = Inr []"
    by (simp add: centroid_def eq del: centroid_loop.simps)
  have m: "\<exists>e. magnitude [] = Inl e \<and> error_code e = Some INVALID_INPUT"
    by (simp add: magnitude_def validateEmbedding_def)
  from c m pairwise_empty_rejected [of "[]" b] pairwise_empty_rejected [of b "[]"]
  show ?thesis by simp
qed

theorem centroid_accepts_empty_vectors_witness:
  "centroid [[], [], []] = Inr [] \<and>
   dotProduct [] [Fin 1] =
     Inl (SemanticError INVALID_INPUT ''first embedding must be a non-empty array''
            (Some (Length 0))) \<and>
   magnitude [] =
     Inl (SemanticError INVALID_INPUT ''embedding must be a non-empty array''
            (Some (Length 0)))"
  using centroid_accepts_empty_vectors [of "[[], [], []]" "[Fin 1]"]
  by (simp add: dotProduct_def magnitude_def validatePair_def validateEmbedding_def)

end
